theory Spec2Isabelle
  imports Complex_Main "HOL-Library.Word" "HOL-Library.Log_Nat"
begin

unbundle bit_operations_syntax

section \<open>Python floats\<close>

text \<open>
  \<open>threshold_percentage\<close> and \<open>change_percentage\<close> are IEEE 754 binary64 values.  A finite
  double is a rational number; an arithmetic operation computes the exact rational result and
  rounds it to the nearest double, ties to even.  \<open>fl64\<close> is that rounding: 53 significant
  bits, exponent of the last bit not below \<open>-1074\<close> (subnormals).  Overflow to infinity is
  not modelled: every value computed here lies between 0 and 100.
\<close>

definition pow2 :: "int \<Rightarrow> rat" where
  "pow2 k = (if 0 \<le> k then 2 ^ nat k else 1 / 2 ^ nat (- k))"

definition ilog2 :: "rat \<Rightarrow> int" where
  \<comment> \<open>\<open>\<lfloor>log\<^sub>2 q\<rfloor>\<close> for \<open>q > 0\<close>, from the bit lengths of numerator and denominator\<close>
  "ilog2 q =
     (let (a, b) = quotient_of q;
          k = int (floorlog 2 (nat a)) - int (floorlog 2 (nat b))
      in if pow2 k \<le> q then k else k - 1)"

definition round_half_even :: "rat \<Rightarrow> int" where
  "round_half_even m =
     (let f = \<lfloor>m\<rfloor>; d = m - of_int f
      in if d < 1 / 2 then f
         else if 1 / 2 < d then f + 1
         else if even f then f else f + 1)"

definition fl64 :: "rat \<Rightarrow> rat" where
  "fl64 q =
     (if q = 0 then 0
      else let e = max (ilog2 \<bar>q\<bar> - 52) (- 1074)
           in sgn q * of_int (round_half_even (\<bar>q\<bar> / pow2 e)) * pow2 e)"

definition fsub :: "rat \<Rightarrow> rat \<Rightarrow> rat" where
  "fsub a b = fl64 (a - b)"

definition fadd :: "rat \<Rightarrow> rat \<Rightarrow> rat" where
  "fadd a b = fl64 (a + b)"

definition fmul :: "rat \<Rightarrow> rat \<Rightarrow> rat" where
  "fmul a b = fl64 (a * b)"

definition fdiv :: "rat \<Rightarrow> rat \<Rightarrow> rat" where
  \<comment> \<open>for a divisor that is not zero; a division by zero has no finite result\<close>
  "fdiv a b = fl64 (a / b)"

section \<open>Images\<close>

text \<open>
  A frame is a numpy array of shape \<open>(rows, columns, 3)\<close> of unsigned bytes, channel order
  B, G, R; a grayscale image has shape \<open>(rows, columns)\<close>.  Both are lists of rows.
\<close>

type_synonym pixel = "8 word \<times> 8 word \<times> 8 word"
type_synonym frame = "pixel list list"
type_synonym gray_image = "8 word list list"
type_synonym roi = "int \<times> int \<times> int \<times> int"

definition slice_bound :: "int \<Rightarrow> int \<Rightarrow> int" where
  \<comment> \<open>a slice bound \<open>i\<close> on a sequence of length \<open>n\<close>: negative bounds count from the end,
      and the result is clipped to \<open>[0, n]\<close>\<close>
  "slice_bound n i = (if i < 0 then max (i + n) 0 else min i n)"

definition py_slice :: "int \<Rightarrow> int \<Rightarrow> 'a list \<Rightarrow> 'a list" where
  \<comment> \<open>\<open>xs[a:b]\<close>\<close>
  "py_slice a b xs =
     (let n = int (length xs); lo = slice_bound n a; hi = slice_bound n b
      in take (nat (hi - lo)) (drop (nat lo) xs))"

definition crop :: "roi \<Rightarrow> 'a list list \<Rightarrow> 'a list list" where
  \<comment> \<open>\<open>x, y, w, h = roi; frame[y:y+h, x:x+w]\<close>\<close>
  "crop r img = (case r of (x, y, w, h) \<Rightarrow> map (py_slice x (x + w)) (py_slice y (y + h) img))"

definition dims :: "'a list list \<Rightarrow> nat \<times> nat" where
  \<comment> \<open>rows and columns of an image that is not empty\<close>
  "dims img = (length img, case img of [] \<Rightarrow> 0 | r # _ \<Rightarrow> length r)"

definition total_pixels :: "'a list list \<Rightarrow> nat" where
  \<comment> \<open>\<open>img.size\<close>\<close>
  "total_pixels img = length (concat img)"

definition is_empty :: "'a list list \<Rightarrow> bool" where
  "is_empty img = (total_pixels img = 0)"

section \<open>The OpenCV operations\<close>

text \<open>
  The library is not part of the repository.  Colour conversion and smoothing are taken as
  parameters: \<open>gray_of\<close> is the luminance of one B, G, R pixel (\<open>cvtColor\<close> with
  \<open>COLOR_BGR2GRAY\<close> applies it to every pixel), \<open>blur\<close> is \<open>GaussianBlur\<close> with the 15 by 15
  kernel, which returns an image of the size of its input.  \<open>cvtColor\<close> raises \<open>cv2.error\<close> on an image without pixels; \<open>absdiff\<close> raises
  \<open>cv2.error\<close> on two arrays of different sizes.  The text overlays and the colour map of the
  visualisation change no value that is computed afterwards and are left out.
\<close>

record cv_ops =
  gray_of :: "pixel \<Rightarrow> 8 word"
  blur :: "gray_image \<Rightarrow> gray_image"

datatype cv_error = EmptyImage | ShapeMismatch

definition cvtColor_BGR2GRAY :: "cv_ops \<Rightarrow> frame \<Rightarrow> cv_error + gray_image" where
  "cvtColor_BGR2GRAY cv img =
     (if is_empty img then Inl EmptyImage else Inr (map (map (gray_of cv)) img))"

definition absdiff_px :: "8 word \<Rightarrow> 8 word \<Rightarrow> 8 word" where
  "absdiff_px a b = (if b \<le> a then a - b else b - a)"

definition absdiff :: "gray_image \<Rightarrow> gray_image \<Rightarrow> cv_error + gray_image" where
  "absdiff a b =
     (if dims a = dims b then Inr (map2 (map2 absdiff_px) a b) else Inl ShapeMismatch)"

definition threshold_binary :: "8 word \<Rightarrow> 8 word \<Rightarrow> gray_image \<Rightarrow> gray_image" where
  \<comment> \<open>\<open>cv2.threshold(src, t, maxval, cv2.THRESH_BINARY)\<close>\<close>
  "threshold_binary t maxval src = map (map (\<lambda>v. if t < v then maxval else 0)) src"

section \<open>SimpleDoorDetector\<close>

record history_entry =
  timestamp :: string
  status :: string

record detector =
  door_roi :: "roi option"
  reference_closed :: "gray_image option"
  door_status :: string
  history :: "history_entry list"
  threshold_percentage :: rat

definition init_detector :: detector where
  "init_detector =
     \<lparr>door_roi = None, reference_closed = None, door_status = ''Unknown'',
      history = [], threshold_percentage = 5\<rparr>"

definition set_door_frame :: "roi \<Rightarrow> detector \<Rightarrow> detector" where
  "set_door_frame r d = d\<lparr>door_roi := Some r\<rparr>"

definition calibrate_closed :: "cv_ops \<Rightarrow> frame \<Rightarrow> detector \<Rightarrow> (cv_error + bool) \<times> detector" where
  "calibrate_closed cv frm d =
     (case door_roi d of
        None \<Rightarrow> (Inr False, d)
      | Some r \<Rightarrow>
          (case cvtColor_BGR2GRAY cv (crop r frm) of
             Inl e \<Rightarrow> (Inl e, d)
           | Inr g \<Rightarrow> (Inr True, d\<lparr>reference_closed := Some (blur cv g)\<rparr>)))"

text \<open>
  Lines 57 to 61 of \<open>detect_door_status\<close>: the difference image, the binary mask and the
  share of set pixels, in percent.  The two images come out of \<open>cvtColor\<close> and the
  smoothing, so they hold at least one pixel and the divisor \<open>thresh.size\<close> is not zero.
\<close>

definition change_score :: "gray_image \<Rightarrow> gray_image \<Rightarrow> cv_error + (gray_image \<times> gray_image \<times> rat)" where
  "change_score reference current_gray =
     (case absdiff reference current_gray of
        Inl e \<Rightarrow> Inl e
      | Inr diff \<Rightarrow>
          (let thresh = threshold_binary 30 255 diff;
               changed_pixels = length (filter (\<lambda>v. 0 < v) (concat thresh));
               total = total_pixels thresh;
               change_percentage = fmul (fdiv (of_nat changed_pixels) (of_nat total)) 100
           in Inr (diff, thresh, change_percentage)))"

text \<open>
  The second component of the result of \<open>detect_door_status\<close> is \<open>None\<close> or the triple
  \<open>(vis, diff_colored, thresh)\<close>.  Here \<open>vis\<close> is the crop before the two texts are drawn on
  it and \<open>diff_colored\<close> is the difference image before the colour map is applied.
\<close>

type_synonym processed = "frame \<times> gray_image \<times> gray_image"
type_synonym detection = "string \<times> processed option \<times> rat"

definition detect_door_status :: "cv_ops \<Rightarrow> frame \<Rightarrow> detector \<Rightarrow> (cv_error + detection) \<times> detector" where
  "detect_door_status cv frm d =
     (case (door_roi d, reference_closed d) of
        (None, _) \<Rightarrow> (Inr (''Not Calibrated'', None, 0), d)
      | (Some r, None) \<Rightarrow> (Inr (''Not Calibrated'', None, 0), d)
      | (Some r, Some reference) \<Rightarrow>
          (let current_door = crop r frm in
           case cvtColor_BGR2GRAY cv current_door of
             Inl e \<Rightarrow> (Inl e, d)
           | Inr g \<Rightarrow>
               (case change_score reference (blur cv g) of
                  Inl e \<Rightarrow> (Inl e, d)
                | Inr (diff, thresh, change_percentage) \<Rightarrow>
                    (let st = (if threshold_percentage d < change_percentage
                               then ''OPEN'' else ''CLOSED'')
                     in (Inr (st, Some (current_door, diff, thresh), change_percentage), d)))))"

definition log_status :: "string \<Rightarrow> string \<Rightarrow> detector \<Rightarrow> detector" where
  \<comment> \<open>the first argument is the reading of the clock, already formatted\<close>
  "log_status now st d =
     (if length (history d) = 0 \<or> status (last (history d)) \<noteq> st
      then d\<lparr>history := history d @ [\<lparr>timestamp = now, status = st\<rparr>]\<rparr>
      else d)"

section \<open>The live session\<close>

text \<open>
  The three module globals \<open>live_detector\<close>, \<open>live_camera\<close> and \<open>live_active\<close> form the
  session state.  Every route runs under \<open>live_lock\<close> or touches the state in one step, so a
  route is a function from the state before to a response and the state after.  A camera
  handle records whether the device was opened and the capture size asked for; whether
  \<open>cv2.VideoCapture(0)\<close> can open the device is an input of \<open>start_live\<close>.
\<close>

record camera =
  isOpened :: bool
  frame_width :: "nat option"
  frame_height :: "nat option"

record session =
  live_detector :: "detector option"
  live_camera :: "camera option"
  live_active :: bool

datatype json = JBool bool | JStr string | JNum rat | JHistory "history_entry list"

type_synonym response = "(string \<times> json) list"

definition init_session :: session where
  "init_session = \<lparr>live_detector = None, live_camera = None, live_active = False\<rparr>"

definition VideoCapture :: "bool \<Rightarrow> camera" where
  "VideoCapture available = \<lparr>isOpened = available, frame_width = None, frame_height = None\<rparr>"

definition start_live :: "bool \<Rightarrow> session \<Rightarrow> response \<times> session" where
  "start_live available s =
     (if live_active s
      then ([(''success'', JBool False), (''message'', JStr ''Already running'')], s)
      else
        (let cam = VideoCapture available;
             s1 = s\<lparr>live_camera := Some cam\<rparr>
         in if \<not> isOpened cam
            then ([(''success'', JBool False), (''message'', JStr ''Camera not available'')], s1)
            else
              (let cam1 = cam\<lparr>frame_width := Some 640\<rparr>;
                   cam2 = cam1\<lparr>frame_height := Some 480\<rparr>;
                   s2 = s1\<lparr>live_camera := Some cam2\<rparr>;
                   s3 = s2\<lparr>live_detector := Some init_detector\<rparr>;
                   s4 = s3\<lparr>live_active := True\<rparr>
               in ([(''success'', JBool True), (''message'', JStr ''Live detection started'')],
                   s4))))"

definition stop_live :: "session \<Rightarrow> response \<times> session" where
  "stop_live s =
     (let s1 = s\<lparr>live_active := False\<rparr>;
          s2 = (case live_camera s1 of
                  Some cam \<Rightarrow> s1\<lparr>live_camera := None\<rparr>
                | None \<Rightarrow> s1);
          hist = (case live_detector s2 of Some d \<Rightarrow> history d | None \<Rightarrow> []);
          s3 = s2\<lparr>live_detector := None\<rparr>
      in ([(''success'', JBool True), (''history'', JHistory hist)], s3))"

definition adjust_sensitivity :: "string option \<Rightarrow> session \<Rightarrow> response \<times> session" where
  \<comment> \<open>the first argument is \<open>data.get('action')\<close>\<close>
  "adjust_sensitivity action s =
     (case live_detector s of
        Some d \<Rightarrow>
          (let d' =
                 (if action = Some ''increase''
                  then d\<lparr>threshold_percentage := max 1 (fsub (threshold_percentage d) (1 / 2))\<rparr>
                  else if action = Some ''decrease''
                  then d\<lparr>threshold_percentage := min 15 (fadd (threshold_percentage d) (1 / 2))\<rparr>
                  else d)
           in ([(''success'', JBool True), (''value'', JNum (threshold_percentage d'))],
               s\<lparr>live_detector := Some d'\<rparr>))
      | None \<Rightarrow> ([(''success'', JBool False)], s))"

text \<open>
  \<open>generate_live_frames\<close> runs while the consumer asks for frames.  The list argument holds,
  for each iteration the consumer asks for, the reading of the clock and what
  \<open>live_camera.read()\<close> returns (\<open>None\<close> when \<open>ret\<close> is false); no other route
  runs between the iterations.  The result is the list of
  frames yielded, each reduced to the two texts drawn on it (the status and the sensitivity),
  the exception that ended the generator, if any, and the session afterwards.
\<close>

fun generate_live_frames ::
  "cv_ops \<Rightarrow> (string \<times> frame option) list \<Rightarrow> session
     \<Rightarrow> (string \<times> rat) list \<times> cv_error option \<times> session" where
  "generate_live_frames cv [] s = ([], None, s)"
| "generate_live_frames cv ((now, rd) # rest) s =
     (if \<not> live_active s then ([], None, s)
      else
        case (live_camera s, live_detector s) of
          (None, _) \<Rightarrow> ([], None, s)
        | (Some cam, None) \<Rightarrow> ([], None, s)
        | (Some cam, Some det) \<Rightarrow>
            (case rd of
               None \<Rightarrow> ([], None, s)
             | Some frm \<Rightarrow>
                 (case detect_door_status cv frm det of
                    (Inl e, det1) \<Rightarrow> ([], Some e, s\<lparr>live_detector := Some det1\<rparr>)
                  | (Inr (st, pr, change_pct), det1) \<Rightarrow>
                      (let det2 = (if st \<in> set [''OPEN'', ''CLOSED'']
                                   then log_status now st det1 else det1);
                           s' = s\<lparr>live_detector := Some det2\<rparr>;
                           (ys, e, s'') = generate_live_frames cv rest s'
                       in ((st, threshold_percentage det2) # ys, e, s'')))))"

section \<open>Sample data\<close>

text \<open>
  A luminance function and a smoothing step for the concrete evaluations below: the weights
  of the 8-bit conversion in fixed point, and no smoothing.
\<close>

definition sample_gray :: "pixel \<Rightarrow> 8 word" where
  "sample_gray p =
     (case p of (b, g, r) \<Rightarrow>
        word_of_nat ((unat r * 4899 + unat g * 9617 + unat b * 1868 + 8192) div 16384))"

definition sample_cv :: cv_ops where
  "sample_cv = \<lparr>gray_of = sample_gray, blur = (\<lambda>img. img)\<rparr>"

definition black :: pixel where
  "black = (0, 0, 0)"

definition white :: pixel where
  "white = (255, 255, 255)"

definition closed_frame :: frame where
  \<comment> \<open>2 rows of 4 pixels, all black\<close>
  "closed_frame = [[black, black, black, black], [black, black, black, black]]"

definition ajar_frame :: frame where
  \<comment> \<open>one pixel of eight differs from \<open>closed_frame\<close>\<close>
  "ajar_frame = [[white, black, black, black], [black, black, black, black]]"

definition open_frame :: frame where
  "open_frame = [[white, white, white, white], [black, black, black, black]]"

definition calibrated_detector :: detector where
  \<comment> \<open>a fresh detector after \<open>set_door_frame (0, 0, 4, 2)\<close> and calibration on \<open>closed_frame\<close>\<close>
  "calibrated_detector =
     snd (calibrate_closed sample_cv closed_frame (set_door_frame (0, 0, 4, 2) init_detector))"

definition sample_session :: session where
  \<comment> \<open>a running session whose detector is \<open>calibrated_detector\<close>\<close>
  "sample_session =
     \<lparr>live_detector = Some calibrated_detector,
      live_camera = Some \<lparr>isOpened = True, frame_width = Some 640, frame_height = Some 480\<rparr>,
      live_active = True\<rparr>"

definition sample_reads :: "(string \<times> frame option) list" where
  \<comment> \<open>five camera frames: closed, closed, open, open, closed\<close>
  "sample_reads =
     [(''2024-01-01 12:00:01'', Some closed_frame),
      (''2024-01-01 12:00:02'', Some closed_frame),
      (''2024-01-01 12:00:03'', Some open_frame),
      (''2024-01-01 12:00:04'', Some open_frame),
      (''2024-01-01 12:00:05'', Some closed_frame)]"

section \<open>Auxiliary notions\<close>


definition threshold_step :: "rat \<Rightarrow> bool" where
  \<comment> \<open>one of 1.0, 1.5, 2.0, ..., 15.0\<close>
  "threshold_step t = (t \<in> set (map (\<lambda>k. of_int k / 2) [2..30]))"

definition increase_sensitivity :: "session \<Rightarrow> session" where
  \<comment> \<open>the session after one request with action \<open>increase\<close>\<close>
  "increase_sensitivity s = snd (adjust_sensitivity (Some ''increase'') s)"

definition decrease_sensitivity :: "session \<Rightarrow> session" where
  \<comment> \<open>the session after one request with action \<open>decrease\<close>\<close>
  "decrease_sensitivity s = snd (adjust_sensitivity (Some ''decrease'') s)"

section \<open>Facts about the rounding\<close>

text \<open>
  \<open>ilog2\<close> is the binary exponent of a positive rational, \<open>fl64\<close> returns a multiple of the
  unit in the last place that is at most half a unit away from its argument, and a rational
  that is a double already (a significand below \<open>2\<^sup>5\<^sup>3\<close> times a power of two in range) is
  returned as it is.
\<close>

lemma pow2_power_int: "pow2 k = 2 powi k"
  unfolding pow2_def power_int_def by (simp add: power_one_over [symmetric] inverse_eq_divide)

lemma pow2_pos: "0 < pow2 k"
  unfolding pow2_def by simp

lemma pow2_nat: "pow2 (int n) = 2 ^ n"
  by (simp add: pow2_def)

lemma bit_length_bounds:
  assumes "0 < n"
  shows "pow2 (int (floorlog 2 (nat n)) - 1) \<le> of_int n"
    and "of_int n < pow2 (int (floorlog 2 (nat n)))"
proof -
  define l where "l = floorlog 2 (nat n)"
  from assms have n: "0 < nat n" by simp
  from floorlog_bounds [OF n, of 2] have b: "2 ^ (l - 1) \<le> nat n" "nat n < 2 ^ l"
    by (simp_all add: l_def)
  have l: "0 < l"
    using n by (simp add: l_def floorlog_def)
  have n': "(of_nat (nat n) :: rat) = of_int n"
    using assms by simp
  have "(of_nat (2 ^ (l - 1)) :: rat) \<le> of_nat (nat n)"
    using b(1) by (simp only: of_nat_le_iff)
  then have "(2 :: rat) ^ (l - 1) \<le> of_int n"
    by (simp only: n' of_nat_power of_nat_numeral)
  moreover have "int l - 1 = int (l - 1)"
    using l by simp
  ultimately show "pow2 (int (floorlog 2 (nat n)) - 1) \<le> of_int n"
    by (simp only: pow2_nat flip: l_def)
  have "(of_nat (nat n) :: rat) < of_nat (2 ^ l)"
    using b(2) by (simp only: of_nat_less_iff)
  then have "of_int n < (2 :: rat) ^ l"
    by (simp only: n' of_nat_power of_nat_numeral)
  then show "of_int n < pow2 (int (floorlog 2 (nat n)))"
    by (simp only: pow2_nat flip: l_def)
qed

lemma pow2_add: "pow2 (a + b) = pow2 a * pow2 b"
  unfolding pow2_power_int by (rule power_int_add) simp

lemma ilog2_bounds:
  assumes "0 < q"
  shows "pow2 (ilog2 q) \<le> q" and "q < pow2 (ilog2 q + 1)"
proof -
  obtain a b where ab: "quotient_of q = (a, b)" by (cases "quotient_of q")
  then have b: "0 < b" and q: "q = of_int a / of_int b"
    by (simp_all add: quotient_of_denom_pos quotient_of_div)
  with assms have a: "0 < a"
    by (simp add: zero_less_divide_iff)
  define la where "la = int (floorlog 2 (nat a))"
  define lb where "lb = int (floorlog 2 (nat b))"
  note A = bit_length_bounds [OF a, folded la_def]
  note B = bit_length_bounds [OF b, folded lb_def]
  have b': "(0 :: rat) < of_int b" using b by simp
  have lo: "pow2 (la - lb - 1) < q"
  proof -
    have "pow2 (la - lb - 1) * of_int b < pow2 (la - lb - 1) * pow2 lb"
      using B(2) pow2_pos [of "la - lb - 1"] by (simp only: mult_less_cancel_left_pos)
    also have "\<dots> = pow2 (la - 1)"
      using pow2_add [of "la - lb - 1" lb] by simp
    also have "\<dots> \<le> of_int a" by (rule A(1))
    finally show ?thesis
      unfolding q using b' by (simp only: pos_less_divide_eq)
  qed
  have hi: "q < pow2 (la - lb + 1)"
  proof -
    have "of_int a < pow2 la" by (rule A(2))
    also have "\<dots> = pow2 (la - lb + 1) * pow2 (lb - 1)"
      using pow2_add [of "la - lb + 1" "lb - 1"] by simp
    also have "\<dots> \<le> pow2 (la - lb + 1) * of_int b"
      using B(1) pow2_pos [of "la - lb + 1"] by (simp only: mult_le_cancel_left_pos)
    finally show ?thesis
      unfolding q using b' by (simp only: pos_divide_less_eq)
  qed
  have il: "ilog2 q = (if pow2 (la - lb) \<le> q then la - lb else la - lb - 1)"
    by (simp add: ilog2_def ab la_def lb_def)
  show "pow2 (ilog2 q) \<le> q"
    using lo by (simp add: il)
  show "q < pow2 (ilog2 q + 1)"
    using hi by (simp add: il)
qed

lemma round_half_even_nearest: "\<bar>of_int (round_half_even m) - m\<bar> \<le> 1 / 2"
proof -
  define f where "f = \<lfloor>m\<rfloor>"
  have "of_int f \<le> m" "m < of_int f + 1"
    unfolding f_def by linarith+
  then show ?thesis
    unfolding round_half_even_def Let_def f_def [symmetric]
    by (simp add: abs_if)
qed

lemma fl64_nearest:
  assumes "q \<noteq> 0"
  shows "\<exists>m. fl64 q = of_int m * pow2 (max (ilog2 \<bar>q\<bar> - 52) (- 1074)) \<and>
           \<bar>fl64 q - q\<bar> \<le> pow2 (max (ilog2 \<bar>q\<bar> - 52) (- 1074)) / 2"
proof -
  define e where "e = max (ilog2 \<bar>q\<bar> - 52) (- 1074)"
  define m where "m = round_half_even (\<bar>q\<bar> / pow2 e)"
  define u where "u = pow2 e"
  have u: "0 < u" unfolding u_def by (rule pow2_pos)
  have f: "fl64 q = sgn q * of_int m * u"
    using assms by (simp add: fl64_def e_def m_def u_def Let_def)
  have "\<bar>of_int m - \<bar>q\<bar> / u\<bar> \<le> 1 / 2"
    unfolding m_def u_def by (rule round_half_even_nearest)
  then have "\<bar>of_int m - \<bar>q\<bar> / u\<bar> * u \<le> 1 / 2 * u"
    using u by (simp only: mult_le_cancel_right_pos)
  moreover have "\<bar>of_int m - \<bar>q\<bar> / u\<bar> * u = \<bar>(of_int m - \<bar>q\<bar> / u) * u\<bar>"
    using u by (simp only: abs_mult abs_of_pos)
  moreover have "(of_int m - \<bar>q\<bar> / u) * u = of_int m * u - \<bar>q\<bar>"
    using u by (simp add: left_diff_distrib)
  ultimately have near: "\<bar>of_int m * u - \<bar>q\<bar>\<bar> \<le> u / 2"
    by simp
  show ?thesis
  proof (cases "0 < q")
    case True
    then have "fl64 q = of_int m * u" "\<bar>fl64 q - q\<bar> = \<bar>of_int m * u - \<bar>q\<bar>\<bar>"
      by (simp_all add: f)
    with near show ?thesis
      unfolding u_def e_def by metis
  next
    case False
    with assms have neg: "q < 0" by simp
    then have "fl64 q = of_int (- m) * u"
      by (simp add: f)
    moreover have "fl64 q - q = - (of_int m * u - \<bar>q\<bar>)"
      using neg by (simp add: f)
    then have "\<bar>fl64 q - q\<bar> = \<bar>of_int m * u - \<bar>q\<bar>\<bar>"
      by (simp only: abs_minus_cancel)
    ultimately show ?thesis
      using near unfolding u_def e_def by metis
  qed
qed

lemma pow2_ge_one:
  assumes "0 \<le> k"
  shows "1 \<le> pow2 k"
  using assms by (simp add: pow2_def)

lemma pow2_mono:
  assumes "a \<le> b"
  shows "pow2 a \<le> pow2 b"
proof -
  have "pow2 b = pow2 a * pow2 (b - a)"
    using pow2_add [of a "b - a"] by simp
  moreover have "pow2 a * 1 \<le> pow2 a * pow2 (b - a)"
    using pow2_ge_one [of "b - a"] pow2_pos [of a] assms
    by (simp only: mult_le_cancel_left_pos)
  ultimately show ?thesis by simp
qed

lemma ilog2_less:
  assumes "0 < q" and "q < pow2 k"
  shows "ilog2 q < k"
proof (rule ccontr)
  assume "\<not> ilog2 q < k"
  then have "pow2 k \<le> pow2 (ilog2 q)"
    by (intro pow2_mono) simp
  with ilog2_bounds(1) [OF assms(1)] assms(2) show False by simp
qed

lemma round_half_even_of_int: "round_half_even (of_int n) = n"
  by (simp add: round_half_even_def)

lemma fl64_exact:
  assumes "q = of_int m * pow2 e" and "\<bar>m\<bar> < 2 ^ 53" and "- 1074 \<le> e"
  shows "fl64 q = q"
proof (cases "q = 0")
  case True
  then show ?thesis by (simp add: fl64_def)
next
  case False
  define e' where "e' = max (ilog2 \<bar>q\<bar> - 52) (- 1074)"
  have abs_q: "\<bar>q\<bar> = of_int \<bar>m\<bar> * pow2 e"
    using pow2_pos [of e] by (simp add: assms(1) abs_mult)
  have "of_int \<bar>m\<bar> < (2 :: rat) ^ 53"
    using assms(2) by (metis of_int_less_iff of_int_numeral of_int_power)
  then have "of_int \<bar>m\<bar> * pow2 e < pow2 53 * pow2 e"
    using pow2_pos [of e] by (simp add: pow2_def)
  then have "\<bar>q\<bar> < pow2 (53 + e)"
    by (simp only: abs_q pow2_add)
  with False have "ilog2 \<bar>q\<bar> < 53 + e"
    by (intro ilog2_less) simp_all
  with assms(3) have le: "e' \<le> e"
    by (simp add: e'_def)
  define n where "n = nat (e - e')"
  have "pow2 e = pow2 (int n) * pow2 e'"
    using pow2_add [of "int n" e'] le by (simp add: n_def)
  then have split: "pow2 e = 2 ^ n * pow2 e'"
    by (simp only: pow2_nat)
  have "\<bar>q\<bar> / pow2 e' = of_int (\<bar>m\<bar> * 2 ^ n)"
    using pow2_pos [of e'] by (simp add: abs_q split)
  then have "round_half_even (\<bar>q\<bar> / pow2 e') = \<bar>m\<bar> * 2 ^ n"
    by (simp only: round_half_even_of_int)
  then have "fl64 q = sgn q * of_int (\<bar>m\<bar> * 2 ^ n) * pow2 e'"
    using False by (simp add: fl64_def e'_def Let_def)
  also have "\<dots> = sgn q * (of_int \<bar>m\<bar> * pow2 e)"
    by (simp add: split)
  also have "\<dots> = sgn q * \<bar>q\<bar>"
    by (simp only: abs_q)
  also have "\<dots> = q"
    by (simp add: sgn_mult_abs)
  finally show ?thesis .
qed

lemma fl64_half_integer:
  assumes "\<bar>k\<bar> < 2 ^ 53"
  shows "fl64 (of_int k / 2) = of_int k / 2"
  using assms by (intro fl64_exact [of _ k "- 1"]) (simp_all add: pow2_def)

section \<open>Facts about the detector\<close>

lemma detect_door_status_keeps_detector: "snd (detect_door_status cv frm d) = d"
  by (simp add: detect_door_status_def Let_def split: option.split sum.split prod.split)

lemma detect_door_status_uncalibrated:
  "door_roi d = None \<or> reference_closed d = None \<Longrightarrow>
   detect_door_status cv frm d = (Inr (''Not Calibrated'', None, 0), d)"
  by (auto simp add: detect_door_status_def split: option.split)

lemma detect_door_status_scored:
  assumes "door_roi d = Some r" and "reference_closed d = Some reference"
    and "cvtColor_BGR2GRAY cv (crop r frm) = Inr g"
    and "change_score reference (blur cv g) = Inr (diff, thresh, p)"
  shows "detect_door_status cv frm d =
           (Inr (if threshold_percentage d < p then ''OPEN'' else ''CLOSED'',
                 Some (crop r frm, diff, thresh), p), d)"
  using assms by (simp add: detect_door_status_def)

lemma detect_door_status_status:
  assumes "fst (detect_door_status cv frm d) = Inr (st, pr, p)"
  shows "st \<in> {''Not Calibrated'', ''OPEN'', ''CLOSED''}"
  using assms
  by (auto simp add: detect_door_status_def Let_def split: option.splits sum.splits prod.splits if_splits)


lemma log_status_other_fields:
  "door_roi (log_status now st d) = door_roi d"
  "reference_closed (log_status now st d) = reference_closed d"
  "door_status (log_status now st d) = door_status d"
  "threshold_percentage (log_status now st d) = threshold_percentage d"
  by (simp_all add: log_status_def)

subsection \<open>The sample data, evaluated\<close>

lemma sample_gray_values: "sample_gray white = 255" "sample_gray black = 0"
  by (simp_all add: sample_gray_def white_def black_def)

lemma blur_sample_cv: "blur sample_cv img = img"
  by (simp add: sample_cv_def)

lemma crop_whole_sample:
  "crop (0, 0, 4, 2) [[a, b, c, e], [f, g, h, i]] = [[a, b, c, e], [f, g, h, i]]"
  by (simp add: crop_def py_slice_def slice_bound_def)

lemma calibrated_detector_value:
  "calibrated_detector =
     \<lparr>door_roi = Some (0, 0, 4, 2), reference_closed = Some [[0, 0, 0, 0], [0, 0, 0, 0]],
      door_status = ''Unknown'', history = [], threshold_percentage = 5\<rparr>"
  by (simp add: calibrated_detector_def calibrate_closed_def set_door_frame_def
      init_detector_def cvtColor_BGR2GRAY_def crop_whole_sample closed_frame_def
      sample_cv_def sample_gray_values is_empty_def total_pixels_def)

lemma cvtColor_sample_frames:
  "cvtColor_BGR2GRAY sample_cv (crop (0, 0, 4, 2) closed_frame) = Inr [[0, 0, 0, 0], [0, 0, 0, 0]]"
  "cvtColor_BGR2GRAY sample_cv (crop (0, 0, 4, 2) ajar_frame) = Inr [[255, 0, 0, 0], [0, 0, 0, 0]]"
  "cvtColor_BGR2GRAY sample_cv (crop (0, 0, 4, 2) open_frame) = Inr [[255, 255, 255, 255], [0, 0, 0, 0]]"
  by (simp_all add: cvtColor_BGR2GRAY_def crop_whole_sample closed_frame_def ajar_frame_def
      open_frame_def sample_cv_def sample_gray_values is_empty_def total_pixels_def)

lemma sample_percentages:
  "fmul (fdiv 0 8) 100 = 0" "fmul (fdiv 1 8) 100 = 25 / 2" "fmul (fdiv 4 8) 100 = 50"
  by code_simp+

lemma change_score_sample_frames:
  "change_score [[0, 0, 0, 0], [0, 0, 0, 0]] [[0, 0, 0, 0], [0, 0, 0, 0]] =
     Inr ([[0, 0, 0, 0], [0, 0, 0, 0]], [[0, 0, 0, 0], [0, 0, 0, 0]], 0)"
  "change_score [[0, 0, 0, 0], [0, 0, 0, 0]] [[255, 0, 0, 0], [0, 0, 0, 0]] =
     Inr ([[255, 0, 0, 0], [0, 0, 0, 0]], [[255, 0, 0, 0], [0, 0, 0, 0]], 25 / 2)"
  "change_score [[0, 0, 0, 0], [0, 0, 0, 0]] [[255, 255, 255, 255], [0, 0, 0, 0]] =
     Inr ([[255, 255, 255, 255], [0, 0, 0, 0]], [[255, 255, 255, 255], [0, 0, 0, 0]], 50)"
  by (simp_all add: change_score_def absdiff_def dims_def absdiff_px_def threshold_binary_def
      total_pixels_def sample_percentages Let_def)

section \<open>Classification against the threshold\<close>

text \<open>
  Claim C1.  On a calibrated detector (region and reference both set) with threshold \<open>t\<close>,
  for a frame whose change percentage is computed as \<open>p\<close>, \<open>detect_door_status\<close> returns
  \<open>p\<close> with a status that is \<open>CLOSED\<close> exactly when \<open>p \<le> t\<close> and \<open>OPEN\<close> exactly when
  \<open>t < p\<close>; a percentage equal to the threshold gives \<open>CLOSED\<close>.  This holds for every
  threshold, in particular for those between 1 and 15.
\<close>

theorem detect_door_status_threshold:
  assumes "door_roi d = Some r" and "reference_closed d = Some reference"
    and "cvtColor_BGR2GRAY cv (crop r frm) = Inr g"
    and "change_score reference (blur cv g) = Inr (diff, thresh, p)"
  shows "\<exists>st pr. fst (detect_door_status cv frm d) = Inr (st, pr, p) \<and>
           (st = ''CLOSED'' \<longleftrightarrow> p \<le> threshold_percentage d) \<and>
           (st = ''OPEN'' \<longleftrightarrow> threshold_percentage d < p)"
proof (cases "threshold_percentage d < p")
  case True
  with assms have "fst (detect_door_status cv frm d) = Inr (''OPEN'', Some (crop r frm, diff, thresh), p)"
    by (simp add: detect_door_status_scored)
  with True show ?thesis by auto
next
  case False
  with assms have "fst (detect_door_status cv frm d) = Inr (''CLOSED'', Some (crop r frm, diff, thresh), p)"
    by (simp add: detect_door_status_scored)
  with False show ?thesis by auto
qed

theorem detect_door_status_threshold_witness:
  "\<exists>st pr. fst (detect_door_status sample_cv ajar_frame
                  (calibrated_detector\<lparr>threshold_percentage := 25 / 2\<rparr>)) = Inr (st, pr, 25 / 2) \<and>
     (st = ''CLOSED'' \<longleftrightarrow> (25 / 2 :: rat) \<le> 25 / 2) \<and>
     (st = ''OPEN'' \<longleftrightarrow> (25 / 2 :: rat) < 25 / 2)"
  using detect_door_status_threshold
    [of "calibrated_detector\<lparr>threshold_percentage := 25 / 2\<rparr>" "(0, 0, 4, 2)"
        "[[0, 0, 0, 0], [0, 0, 0, 0]]" sample_cv ajar_frame "[[255, 0, 0, 0], [0, 0, 0, 0]]"
        "[[255, 0, 0, 0], [0, 0, 0, 0]]" "[[255, 0, 0, 0], [0, 0, 0, 0]]" "25 / 2"]
  by (simp add: calibrated_detector_value cvtColor_sample_frames change_score_sample_frames
      blur_sample_cv)

section \<open>The history of status changes\<close>








lemma generate_live_frames_touches_history_only:
  assumes "live_detector s = Some d"
  shows "\<exists>h. snd (snd (generate_live_frames cv reads s)) = s\<lparr>live_detector := Some (d\<lparr>history := h\<rparr>)\<rparr>"
  using assms
proof (induction reads arbitrary: s d)
  case Nil
  have "s = s\<lparr>live_detector := Some (d\<lparr>history := history d\<rparr>)\<rparr>"
    using Nil by simp
  then show ?case by (metis generate_live_frames.simps(1) snd_conv)
next
  case (Cons x reads)
  obtain now rd where x: "x = (now, rd)" by (cases x)
  have same: "s = s\<lparr>live_detector := Some (d\<lparr>history := history d\<rparr>)\<rparr>"
    using Cons.prems by simp
  show ?case
  proof (cases "live_active s \<and> live_camera s \<noteq> None \<and> rd \<noteq> None")
    case False
    with Cons.prems x have "snd (snd (generate_live_frames cv (x # reads) s)) = s"
      by (auto split: option.splits)
    with same show ?thesis by metis
  next
    case True
    then obtain cam frm where c: "live_active s" "live_camera s = Some cam" "rd = Some frm"
      by auto
    have keep: "snd (detect_door_status cv frm d) = d"
      by (rule detect_door_status_keeps_detector)
    show ?thesis
    proof (cases "fst (detect_door_status cv frm d)")
      case (Inl err)
      with keep have "detect_door_status cv frm d = (Inl err, d)"
        by (metis prod.collapse)
      with Cons.prems x c have "snd (snd (generate_live_frames cv (x # reads) s)) = s"
        by simp
      with same show ?thesis by metis
    next
      case (Inr res)
      obtain st pr pct where res: "res = (st, pr, pct)" by (cases res)
      with Inr keep have det: "detect_door_status cv frm d = (Inr (st, pr, pct), d)"
        by (metis prod.collapse)
      define d2 where "d2 = (if st \<in> set [''OPEN'', ''CLOSED''] then log_status now st d else d)"
      define s2 where "s2 = s\<lparr>live_detector := Some d2\<rparr>"
      have d2: "d2 = d\<lparr>history := history d2\<rparr>"
        by (simp add: d2_def log_status_def)
      have step: "snd (snd (generate_live_frames cv (x # reads) s)) =
                    snd (snd (generate_live_frames cv reads s2))"
        using x c Cons.prems det
        by (simp add: d2_def s2_def Let_def split: prod.split)
      have "live_detector s2 = Some d2" by (simp add: s2_def)
      from Cons.IH [OF this] obtain h where
        "snd (snd (generate_live_frames cv reads s2)) = s2\<lparr>live_detector := Some (d2\<lparr>history := h\<rparr>)\<rparr>"
        by blast
      moreover have "s2\<lparr>live_detector := Some (d2\<lparr>history := h\<rparr>)\<rparr> =
                       s\<lparr>live_detector := Some (d\<lparr>history := h\<rparr>)\<rparr>"
        by (subst d2) (simp add: s2_def)
      ultimately show ?thesis using step by metis
    qed
  qed
qed

lemma generate_live_frames_uncalibrated:
  assumes "live_detector s = Some d" and "door_roi d = None \<or> reference_closed d = None"
  shows "generate_live_frames cv reads s = (map (\<lambda>_. (''Not Calibrated'', threshold_percentage d))
           (takeWhile (\<lambda>(now, rd). live_active s \<and> live_camera s \<noteq> None \<and> rd \<noteq> None) reads), None, s)"
  using assms
proof (induction reads)
  case Nil
  then show ?case by simp
next
  case (Cons x reads)
  obtain now rd where x: "x = (now, rd)" by (cases x)
  have s: "s\<lparr>live_detector := Some d\<rparr> = s" using Cons.prems by simp
  show ?case
    using Cons x
    by (auto simp add: s detect_door_status_uncalibrated split: option.splits)
qed

lemma crop_sample_frames:
  "crop (0, 0, 4, 2) closed_frame = closed_frame"
  "crop (0, 0, 4, 2) ajar_frame = ajar_frame"
  "crop (0, 0, 4, 2) open_frame = open_frame"
  by (simp_all add: closed_frame_def ajar_frame_def open_frame_def crop_whole_sample)

lemma detect_sample_frames:
  assumes "threshold_percentage d = 5" and "door_roi d = Some (0, 0, 4, 2)"
    and "reference_closed d = Some [[0, 0, 0, 0], [0, 0, 0, 0]]"
  shows "detect_door_status sample_cv closed_frame d =
           (Inr (''CLOSED'', Some (closed_frame, [[0, 0, 0, 0], [0, 0, 0, 0]],
                   [[0, 0, 0, 0], [0, 0, 0, 0]]), 0), d)"
    and "detect_door_status sample_cv open_frame d =
           (Inr (''OPEN'', Some (open_frame, [[255, 255, 255, 255], [0, 0, 0, 0]],
                   [[255, 255, 255, 255], [0, 0, 0, 0]]), 50), d)"
proof -
  show "detect_door_status sample_cv closed_frame d =
           (Inr (''CLOSED'', Some (closed_frame, [[0, 0, 0, 0], [0, 0, 0, 0]],
                   [[0, 0, 0, 0], [0, 0, 0, 0]]), 0), d)"
    using detect_door_status_scored
      [OF assms(2,3) cvtColor_sample_frames(1), of "[[0, 0, 0, 0], [0, 0, 0, 0]]"
        "[[0, 0, 0, 0], [0, 0, 0, 0]]" 0]
    by (simp add: assms(1) change_score_sample_frames blur_sample_cv crop_sample_frames)
  show "detect_door_status sample_cv open_frame d =
           (Inr (''OPEN'', Some (open_frame, [[255, 255, 255, 255], [0, 0, 0, 0]],
                   [[255, 255, 255, 255], [0, 0, 0, 0]]), 50), d)"
    using detect_door_status_scored
      [OF assms(2,3) cvtColor_sample_frames(3), of "[[255, 255, 255, 255], [0, 0, 0, 0]]"
        "[[255, 255, 255, 255], [0, 0, 0, 0]]" 50]
    by (simp add: assms(1) change_score_sample_frames blur_sample_cv crop_sample_frames)
qed




section \<open>Classification before calibration\<close>

text \<open>
  Claim C3.  On a detector whose region or reference is unset, \<open>detect_door_status\<close>
  returns the status \<open>Not Calibrated\<close> with no visualisation and percentage 0 and leaves
  the detector as it was, for every frame; the streaming loop does not log that status, so
  a run of the loop on such a detector ends with the session, and the history in it,
  unchanged.
\<close>

theorem detect_door_status_not_calibrated:
  assumes "door_roi d = None \<or> reference_closed d = None"
  shows "detect_door_status cv frm d = (Inr (''Not Calibrated'', None, 0), d) \<and>
         (live_detector s = Some d \<longrightarrow> snd (snd (generate_live_frames cv reads s)) = s)"
  using assms generate_live_frames_uncalibrated [of s d cv reads]
  by (simp add: detect_door_status_uncalibrated)

theorem detect_door_status_not_calibrated_witness:
  "detect_door_status sample_cv open_frame (set_door_frame (0, 0, 4, 2) init_detector) =
     (Inr (''Not Calibrated'', None, 0), set_door_frame (0, 0, 4, 2) init_detector) \<and>
   snd (snd (generate_live_frames sample_cv sample_reads
     (sample_session\<lparr>live_detector := Some (set_door_frame (0, 0, 4, 2) init_detector)\<rparr>))) =
     sample_session\<lparr>live_detector := Some (set_door_frame (0, 0, 4, 2) init_detector)\<rparr>"
  using detect_door_status_not_calibrated
    [where d = "set_door_frame (0, 0, 4, 2) init_detector"
       and s = "sample_session\<lparr>live_detector := Some (set_door_frame (0, 0, 4, 2) init_detector)\<rparr>"
       and cv = sample_cv and frm = open_frame and reads = sample_reads]
  by (simp add: set_door_frame_def init_detector_def)

section \<open>The stored status field\<close>

text \<open>
  Claim C4 says that a successful classification stores the computed status in the
  detector.  It does not: on the calibrated sample detector the closed frame is classified
  \<open>CLOSED\<close> and the field \<open>door_status\<close> still reads \<open>Unknown\<close>.
\<close>

theorem detect_door_status_stored_status_counterexample:
  "fst (detect_door_status sample_cv closed_frame calibrated_detector) =
     Inr (''CLOSED'', Some (closed_frame, [[0, 0, 0, 0], [0, 0, 0, 0]], [[0, 0, 0, 0], [0, 0, 0, 0]]), 0) \<and>
   door_status (snd (detect_door_status sample_cv closed_frame calibrated_detector)) = ''Unknown'' \<and>
   door_status (snd (detect_door_status sample_cv closed_frame calibrated_detector)) \<noteq> ''CLOSED''"
  by (simp add: detect_sample_frames calibrated_detector_value)

text \<open>
  Claim C4, amended.  \<open>detect_door_status\<close> leaves the detector as it was, so the field
  \<open>door_status\<close> keeps its value; neither \<open>log_status\<close> nor the streaming loop writes it.
  It reads \<open>Unknown\<close> on a new detector, and the computed status is only returned (and
  logged by the loop).
\<close>

theorem detect_door_status_leaves_stored_status:
  "snd (detect_door_status cv frm d) = d \<and>
   door_status (snd (detect_door_status cv frm d)) = door_status d \<and>
   door_status (log_status now st d) = door_status d \<and>
   door_status init_detector = ''Unknown'' \<and>
   (live_detector s = Some d \<longrightarrow>
      (\<exists>d'. live_detector (snd (snd (generate_live_frames cv reads s))) = Some d' \<and>
         door_status d' = door_status d))"
proof -
  have "\<exists>d'. live_detector (snd (snd (generate_live_frames cv reads s))) = Some d' \<and>
         door_status d' = door_status d" if "live_detector s = Some d"
    using generate_live_frames_touches_history_only [OF that, of cv reads] by auto
  then show ?thesis
    by (simp add: detect_door_status_keeps_detector log_status_other_fields init_detector_def)
qed

theorem detect_door_status_leaves_stored_status_witness:
  "snd (detect_door_status sample_cv open_frame calibrated_detector) = calibrated_detector \<and>
   door_status (snd (detect_door_status sample_cv open_frame calibrated_detector)) = ''Unknown'' \<and>
   door_status (log_status ''2024-01-01 12:00:03'' ''OPEN'' calibrated_detector) = ''Unknown'' \<and>
   (\<exists>d'. live_detector (snd (snd (generate_live_frames sample_cv sample_reads sample_session))) = Some d' \<and>
      door_status d' = ''Unknown'')"
  using detect_door_status_leaves_stored_status
    [where cv = sample_cv and frm = open_frame and d = calibrated_detector
       and now = "''2024-01-01 12:00:03''" and st = "''OPEN''"
       and s = sample_session and reads = sample_reads]
  by (simp add: sample_session_def) (simp add: calibrated_detector_value)

section \<open>Sensitivity\<close>

lemma fl64_halves:
  assumes "1 \<le> k" and "k \<le> 31"
  shows "fl64 (of_int k / 2) = of_int k / 2"
  using assms by (intro fl64_half_integer) simp

lemma threshold_step_iff:
  "threshold_step t \<longleftrightarrow> (\<exists>k. 2 \<le> k \<and> k \<le> 30 \<and> t = of_int k / 2)"
  unfolding threshold_step_def set_map set_upto by auto

lemma threshold_step_bounds:
  assumes "threshold_step t"
  shows "1 \<le> t" and "t \<le> 15"
  using assms by (auto simp add: threshold_step_iff)

lemma threshold_step_exact:
  assumes "threshold_step t"
  shows "fsub t (1 / 2) = t - 1 / 2" and "fadd t (1 / 2) = t + 1 / 2"
proof -
  from assms obtain k where k: "2 \<le> k" "k \<le> 30" "t = of_int k / 2"
    by (auto simp add: threshold_step_iff)
  have down: "t - 1 / 2 = of_int (k - 1) / 2" and up: "t + 1 / 2 = of_int (k + 1) / 2"
    using k by (simp_all add: field_simps)
  show "fsub t (1 / 2) = t - 1 / 2"
    unfolding fsub_def down using k(1,2) by (intro fl64_halves) linarith+
  show "fadd t (1 / 2) = t + 1 / 2"
    unfolding fadd_def up using k(1,2) by (intro fl64_halves) linarith+
qed

lemma threshold_step_next:
  assumes "threshold_step t"
  shows "threshold_step (max 1 (t - 1 / 2))" and "threshold_step (min 15 (t + 1 / 2))"
proof -
  from assms obtain k where k: "2 \<le> k" "k \<le> 30" "t = of_int k / 2"
    by (auto simp add: threshold_step_iff)
  have down: "max 1 (t - 1 / 2) = of_int (max 2 (k - 1)) / 2"
    using k by (auto simp add: max_def field_simps)
  have up: "min 15 (t + 1 / 2) = of_int (min 30 (k + 1)) / 2"
    using k by (auto simp add: min_def field_simps)
  have "2 \<le> max 2 (k - 1) \<and> max 2 (k - 1) \<le> 30"
    using k by auto
  with down show "threshold_step (max 1 (t - 1 / 2))"
    unfolding threshold_step_iff by blast
  have "2 \<le> min 30 (k + 1) \<and> min 30 (k + 1) \<le> 30"
    using k by auto
  with up show "threshold_step (min 15 (t + 1 / 2))"
    unfolding threshold_step_iff by blast
qed

lemma threshold_step_new_detector: "threshold_step (threshold_percentage init_detector)"
  by (simp add: threshold_step_iff init_detector_def)

lemma adjust_sensitivity_increase:
  assumes "live_detector s = Some d"
  shows "adjust_sensitivity (Some ''increase'') s =
           ([(''success'', JBool True),
             (''value'', JNum (max 1 (fsub (threshold_percentage d) (1 / 2))))],
            s\<lparr>live_detector := Some (d\<lparr>threshold_percentage :=
                 max 1 (fsub (threshold_percentage d) (1 / 2))\<rparr>)\<rparr>)"
  using assms by (simp add: adjust_sensitivity_def)

lemma adjust_sensitivity_decrease:
  assumes "live_detector s = Some d"
  shows "adjust_sensitivity (Some ''decrease'') s =
           ([(''success'', JBool True),
             (''value'', JNum (min 15 (fadd (threshold_percentage d) (1 / 2))))],
            s\<lparr>live_detector := Some (d\<lparr>threshold_percentage :=
                 min 15 (fadd (threshold_percentage d) (1 / 2))\<rparr>)\<rparr>)"
  using assms by (simp add: adjust_sensitivity_def)

lemma increase_sensitivity_at_lower_bound:
  assumes "live_detector s = Some d" and "threshold_percentage d = 1"
  shows "(increase_sensitivity ^^ n) s = s"
proof (induction n)
  case 0
  then show ?case by simp
next
  case (Suc n)
  have "fsub 1 (1 / 2) = 1 - 1 / 2"
    by (rule threshold_step_exact) (simp add: threshold_step_iff)
  then have "increase_sensitivity s = s"
    using assms by (simp add: increase_sensitivity_def adjust_sensitivity_increase)
  with Suc show ?case by simp
qed

lemma decrease_sensitivity_at_upper_bound:
  assumes "live_detector s = Some d" and "threshold_percentage d = 15"
  shows "(decrease_sensitivity ^^ n) s = s"
proof (induction n)
  case 0
  then show ?case by simp
next
  case (Suc n)
  have "fadd 15 (1 / 2) = 15 + 1 / 2"
    by (rule threshold_step_exact) (simp add: threshold_step_iff)
  then have "decrease_sensitivity s = s"
    using assms by (simp add: decrease_sensitivity_def adjust_sensitivity_decrease)
  with Suc show ?case by simp
qed


text \<open>
  Claim C5.  A request to increase the sensitivity sets the threshold to
  \<open>max(1.0, threshold - 0.5)\<close>, a request to decrease it sets the threshold to
  \<open>min(15.0, threshold + 0.5)\<close>, both in double arithmetic.  On every threshold the
  program can hold (5.0 on a new detector, then moved in these steps: one of 1.0, 1.5, ...,
  15.0) the double operations are exact, the new threshold is again such a value and lies
  between 1 and 15.  Repeated increases from 1.0 and repeated decreases from 15.0 leave the
  session as it is.
\<close>

theorem adjust_sensitivity_clamped:
  assumes "live_detector s = Some d"
  shows "live_detector (snd (adjust_sensitivity (Some ''increase'') s)) =
           Some (d\<lparr>threshold_percentage := max 1 (fsub (threshold_percentage d) (1 / 2))\<rparr>) \<and>
         live_detector (snd (adjust_sensitivity (Some ''decrease'') s)) =
           Some (d\<lparr>threshold_percentage := min 15 (fadd (threshold_percentage d) (1 / 2))\<rparr>) \<and>
         (threshold_step (threshold_percentage d) \<longrightarrow>
            live_detector (increase_sensitivity s) =
              Some (d\<lparr>threshold_percentage := max 1 (threshold_percentage d - 1 / 2)\<rparr>) \<and>
            live_detector (decrease_sensitivity s) =
              Some (d\<lparr>threshold_percentage := min 15 (threshold_percentage d + 1 / 2)\<rparr>) \<and>
            threshold_step (max 1 (threshold_percentage d - 1 / 2)) \<and>
            threshold_step (min 15 (threshold_percentage d + 1 / 2)) \<and>
            1 \<le> max 1 (threshold_percentage d - 1 / 2) \<and>
            max 1 (threshold_percentage d - 1 / 2) \<le> 15 \<and>
            1 \<le> min 15 (threshold_percentage d + 1 / 2) \<and>
            min 15 (threshold_percentage d + 1 / 2) \<le> 15) \<and>
         (threshold_percentage d = 1 \<longrightarrow> (increase_sensitivity ^^ n) s = s) \<and>
         (threshold_percentage d = 15 \<longrightarrow> (decrease_sensitivity ^^ n) s = s)"
proof (intro conjI impI)
  show "live_detector (snd (adjust_sensitivity (Some ''increase'') s)) =
           Some (d\<lparr>threshold_percentage := max 1 (fsub (threshold_percentage d) (1 / 2))\<rparr>)"
    by (simp add: adjust_sensitivity_increase [OF assms])
  show "live_detector (snd (adjust_sensitivity (Some ''decrease'') s)) =
           Some (d\<lparr>threshold_percentage := min 15 (fadd (threshold_percentage d) (1 / 2))\<rparr>)"
    by (simp add: adjust_sensitivity_decrease [OF assms])
next
  assume step: "threshold_step (threshold_percentage d)"
  show "live_detector (increase_sensitivity s) =
          Some (d\<lparr>threshold_percentage := max 1 (threshold_percentage d - 1 / 2)\<rparr>)"
    by (simp add: increase_sensitivity_def adjust_sensitivity_increase [OF assms]
        threshold_step_exact [OF step])
  show "live_detector (decrease_sensitivity s) =
          Some (d\<lparr>threshold_percentage := min 15 (threshold_percentage d + 1 / 2)\<rparr>)"
    by (simp add: decrease_sensitivity_def adjust_sensitivity_decrease [OF assms]
        threshold_step_exact [OF step])
  show "threshold_step (max 1 (threshold_percentage d - 1 / 2))"
    and "threshold_step (min 15 (threshold_percentage d + 1 / 2))"
    by (rule threshold_step_next [OF step])+
  show "1 \<le> max 1 (threshold_percentage d - 1 / 2)"
    and "min 15 (threshold_percentage d + 1 / 2) \<le> 15"
    by simp_all
  show "max 1 (threshold_percentage d - 1 / 2) \<le> 15"
    and "1 \<le> min 15 (threshold_percentage d + 1 / 2)"
    using threshold_step_bounds [OF step] by simp_all
next
  assume "threshold_percentage d = 1"
  then show "(increase_sensitivity ^^ n) s = s"
    by (rule increase_sensitivity_at_lower_bound [OF assms])
next
  assume "threshold_percentage d = 15"
  then show "(decrease_sensitivity ^^ n) s = s"
    by (rule decrease_sensitivity_at_upper_bound [OF assms])
qed

theorem adjust_sensitivity_clamped_witness:
  "live_detector (increase_sensitivity sample_session) =
     Some (calibrated_detector\<lparr>threshold_percentage := 9 / 2\<rparr>) \<and>
   live_detector (decrease_sensitivity sample_session) =
     Some (calibrated_detector\<lparr>threshold_percentage := 11 / 2\<rparr>) \<and>
   (increase_sensitivity ^^ 3)
     (sample_session\<lparr>live_detector := Some (calibrated_detector\<lparr>threshold_percentage := 1\<rparr>)\<rparr>) =
     sample_session\<lparr>live_detector := Some (calibrated_detector\<lparr>threshold_percentage := 1\<rparr>)\<rparr> \<and>
   (decrease_sensitivity ^^ 3)
     (sample_session\<lparr>live_detector := Some (calibrated_detector\<lparr>threshold_percentage := 15\<rparr>)\<rparr>) =
     sample_session\<lparr>live_detector := Some (calibrated_detector\<lparr>threshold_percentage := 15\<rparr>)\<rparr>"
proof -
  have five: "threshold_step (threshold_percentage calibrated_detector)"
    "threshold_percentage calibrated_detector = 5"
    by (simp_all add: calibrated_detector_value threshold_step_iff)
  have "live_detector sample_session = Some calibrated_detector"
    by (simp add: sample_session_def)
  from adjust_sensitivity_clamped [OF this, of 0] five
  have mid: "live_detector (increase_sensitivity sample_session) =
     Some (calibrated_detector\<lparr>threshold_percentage := 9 / 2\<rparr>) \<and>
   live_detector (decrease_sensitivity sample_session) =
     Some (calibrated_detector\<lparr>threshold_percentage := 11 / 2\<rparr>)"
    by simp
  have low: "(increase_sensitivity ^^ 3)
     (sample_session\<lparr>live_detector := Some (calibrated_detector\<lparr>threshold_percentage := 1\<rparr>)\<rparr>) =
     sample_session\<lparr>live_detector := Some (calibrated_detector\<lparr>threshold_percentage := 1\<rparr>)\<rparr>"
    using adjust_sensitivity_clamped
      [where s = "sample_session\<lparr>live_detector := Some (calibrated_detector\<lparr>threshold_percentage := 1\<rparr>)\<rparr>"
         and d = "calibrated_detector\<lparr>threshold_percentage := 1\<rparr>" and n = 3]
    by simp
  have high: "(decrease_sensitivity ^^ 3)
     (sample_session\<lparr>live_detector := Some (calibrated_detector\<lparr>threshold_percentage := 15\<rparr>)\<rparr>) =
     sample_session\<lparr>live_detector := Some (calibrated_detector\<lparr>threshold_percentage := 15\<rparr>)\<rparr>"
    using adjust_sensitivity_clamped
      [where s = "sample_session\<lparr>live_detector := Some (calibrated_detector\<lparr>threshold_percentage := 15\<rparr>)\<rparr>"
         and d = "calibrated_detector\<lparr>threshold_percentage := 15\<rparr>" and n = 3]
    by simp
  from mid low high show ?thesis by blast
qed

section \<open>Starting and stopping the session\<close>

lemma start_live_threshold_step:
  assumes "\<not> live_active s"
  shows "\<exists>d. live_detector (snd (start_live True s)) = Some d \<and>
           threshold_step (threshold_percentage d)"
  using assms by (simp add: start_live_def VideoCapture_def Let_def threshold_step_new_detector)

text \<open>
  Claim C6.  \<open>stop_live\<close> never fails: in every session state it answers with success and
  the history of the detector, the empty history when there is no detector, and leaves the
  session inactive with no camera handle and no detector.  Stopping again answers with the
  empty history and changes nothing.
\<close>

theorem stop_live_always_succeeds:
  "fst (stop_live s) =
     [(''success'', JBool True),
      (''history'', JHistory (case live_detector s of Some d \<Rightarrow> history d | None \<Rightarrow> []))] \<and>
   (live_detector s = None \<longrightarrow>
      fst (stop_live s) = [(''success'', JBool True), (''history'', JHistory [])]) \<and>
   snd (stop_live s) = \<lparr>live_detector = None, live_camera = None, live_active = False\<rparr> \<and>
   stop_live (snd (stop_live s)) =
     ([(''success'', JBool True), (''history'', JHistory [])], snd (stop_live s))"
proof -
  have after: "snd (stop_live s) = \<lparr>live_detector = None, live_camera = None, live_active = False\<rparr>"
    by (cases s) (simp add: stop_live_def Let_def split: option.split)
  have "fst (stop_live s) =
     [(''success'', JBool True),
      (''history'', JHistory (case live_detector s of Some d \<Rightarrow> history d | None \<Rightarrow> []))]"
    by (simp add: stop_live_def Let_def split: option.split)
  moreover have "stop_live (snd (stop_live s)) =
     ([(''success'', JBool True), (''history'', JHistory [])], snd (stop_live s))"
    unfolding after by (simp add: stop_live_def)
  ultimately show ?thesis using after by simp
qed

theorem stop_live_always_succeeds_witness:
  "stop_live init_session = ([(''success'', JBool True), (''history'', JHistory [])], init_session) \<and>
   stop_live (snd (start_live False init_session)) =
     ([(''success'', JBool True), (''history'', JHistory [])], init_session)"
proof -
  have a: "live_detector init_session = None"
    "live_detector (snd (start_live False init_session)) = None"
    by (simp_all add: init_session_def start_live_def VideoCapture_def)
  have "fst (stop_live init_session) = [(''success'', JBool True), (''history'', JHistory [])] \<and>
        snd (stop_live init_session) = init_session"
    using stop_live_always_succeeds [of init_session] a(1) by (simp add: init_session_def)
  moreover
  have "fst (stop_live (snd (start_live False init_session))) =
          [(''success'', JBool True), (''history'', JHistory [])] \<and>
        snd (stop_live (snd (start_live False init_session))) = init_session"
    using stop_live_always_succeeds [of "snd (start_live False init_session)"] a(2)
    by (simp add: init_session_def)
  ultimately show ?thesis by (simp add: prod_eq_iff)
qed

text \<open>
  Claim C10.  When \<open>start_live\<close> is called on an inactive session and the camera cannot be
  opened, it answers \<open>Camera not available\<close>; the session stays inactive and its detector
  is the one it had, so a later start is not answered with \<open>Already running\<close> (and succeeds
  once the camera can be opened).  The camera handle of the session is replaced by the
  handle that failed to open, so a session that held no handle is changed by the failed
  start.
\<close>

theorem start_live_camera_unavailable:
  assumes "\<not> live_active s"
  shows "start_live False s =
           ([(''success'', JBool False), (''message'', JStr ''Camera not available'')],
            s\<lparr>live_camera := Some (VideoCapture False)\<rparr>) \<and>
         \<not> live_active (snd (start_live False s)) \<and>
         live_detector (snd (start_live False s)) = live_detector s \<and>
         live_camera (snd (start_live False s)) =
           Some \<lparr>isOpened = False, frame_width = None, frame_height = None\<rparr> \<and>
         fst (start_live available (snd (start_live False s))) \<noteq>
           [(''success'', JBool False), (''message'', JStr ''Already running'')] \<and>
         fst (start_live True (snd (start_live False s))) =
           [(''success'', JBool True), (''message'', JStr ''Live detection started'')] \<and>
         (live_camera s = None \<longrightarrow> snd (start_live False s) \<noteq> s)"
proof -
  have first: "start_live False s =
           ([(''success'', JBool False), (''message'', JStr ''Camera not available'')],
            s\<lparr>live_camera := Some (VideoCapture False)\<rparr>)"
    using assms by (simp add: start_live_def VideoCapture_def)
  have "snd (start_live False s) \<noteq> s" if "live_camera s = None"
  proof
    assume "snd (start_live False s) = s"
    then have "live_camera (snd (start_live False s)) = live_camera s" by simp
    with that show False by (simp add: first)
  qed
  moreover have "fst (start_live available (s\<lparr>live_camera := Some (VideoCapture False)\<rparr>)) \<noteq>
           [(''success'', JBool False), (''message'', JStr ''Already running'')]"
    using assms by (simp add: start_live_def VideoCapture_def Let_def)
  moreover have "fst (start_live True (s\<lparr>live_camera := Some (VideoCapture False)\<rparr>)) =
           [(''success'', JBool True), (''message'', JStr ''Live detection started'')]"
    using assms by (simp add: start_live_def VideoCapture_def Let_def)
  ultimately show ?thesis
    using assms by (simp add: first) (simp add: VideoCapture_def)
qed

theorem start_live_camera_unavailable_witness:
  "start_live False init_session =
     ([(''success'', JBool False), (''message'', JStr ''Camera not available'')],
      \<lparr>live_detector = None,
       live_camera = Some \<lparr>isOpened = False, frame_width = None, frame_height = None\<rparr>,
       live_active = False\<rparr>) \<and>
   snd (start_live False init_session) \<noteq> init_session \<and>
   fst (start_live True (snd (start_live False init_session))) =
     [(''success'', JBool True), (''message'', JStr ''Live detection started'')]"
proof -
  have "\<not> live_active init_session" "live_camera init_session = None"
    by (simp_all add: init_session_def)
  with start_live_camera_unavailable [of init_session True]
  show ?thesis by (auto simp add: init_session_def VideoCapture_def)
qed

section \<open>Calibration\<close>

lemma calibrate_closed_no_roi:
  assumes "door_roi d = None"
  shows "calibrate_closed cv frm d = (Inr False, d)"
  using assms by (simp add: calibrate_closed_def)

lemma calibrate_closed_empty_crop:
  assumes "door_roi d = Some r" and "is_empty (crop r frm)"
  shows "calibrate_closed cv frm d = (Inl EmptyImage, d)"
  using assms by (simp add: calibrate_closed_def cvtColor_BGR2GRAY_def)

lemma calibrate_closed_success:
  assumes "door_roi d = Some r" and "\<not> is_empty (crop r frm)"
  shows "calibrate_closed cv frm d =
           (Inr True, d\<lparr>reference_closed := Some (blur cv (map (map (gray_of cv)) (crop r frm)))\<rparr>)"
  using assms by (simp add: calibrate_closed_def cvtColor_BGR2GRAY_def)

lemma calibrate_closed_keeps_roi: "door_roi (snd (calibrate_closed cv frm d)) = door_roi d"
  by (simp add: calibrate_closed_def split: option.split sum.split)

text \<open>
  Claim C7 says that calibration succeeds whenever the region is set.  It does not when the
  region holds no pixel of the frame: with the region \<open>(1, 1, 0, 0)\<close> the crop is empty,
  the colour conversion raises and no reference is stored.
\<close>

theorem calibrate_closed_always_succeeds_counterexample:
  "door_roi (set_door_frame (1, 1, 0, 0) init_detector) = Some (1, 1, 0, 0) \<and>
   calibrate_closed sample_cv closed_frame (set_door_frame (1, 1, 0, 0) init_detector) =
     (Inl EmptyImage, set_door_frame (1, 1, 0, 0) init_detector) \<and>
   fst (calibrate_closed sample_cv closed_frame (set_door_frame (1, 1, 0, 0) init_detector)) \<noteq>
     Inr True"
proof -
  have "is_empty (crop (1, 1, 0, 0) closed_frame)"
    by (simp add: crop_def py_slice_def slice_bound_def closed_frame_def is_empty_def
        total_pixels_def)
  moreover have "door_roi (set_door_frame (1, 1, 0, 0) init_detector) = Some (1, 1, 0, 0)"
    by (simp add: set_door_frame_def)
  ultimately show ?thesis
    by (simp add: calibrate_closed_empty_crop)
qed

text \<open>
  Claim C7, amended.  With the region set and unchanged, calibrating with a frame \<open>A\<close> and
  then with a frame \<open>B\<close> whose crop holds at least one pixel gives the detector that
  calibrating with \<open>B\<close> alone gives, whether the first call succeeded or raised: the
  reference is the smoothed grayscale crop of \<open>B\<close>, and every later classification is the
  one of that detector.  \<open>calibrate_closed\<close> returns \<open>True\<close> whenever the region is set
  and the crop holds a pixel, returns \<open>False\<close> exactly when the region is unset, and raises,
  leaving the detector as it was, when the region is set and the crop is empty.
\<close>

theorem calibrate_closed_last_wins:
  assumes "door_roi d = Some r" and "\<not> is_empty (crop r B)"
  shows "calibrate_closed cv B (snd (calibrate_closed cv A d)) = calibrate_closed cv B d \<and>
         calibrate_closed cv B d =
           (Inr True, d\<lparr>reference_closed := Some (blur cv (map (map (gray_of cv)) (crop r B)))\<rparr>) \<and>
         detect_door_status cv frm (snd (calibrate_closed cv B (snd (calibrate_closed cv A d)))) =
           detect_door_status cv frm (snd (calibrate_closed cv B d)) \<and>
         (fst (calibrate_closed cv A d') = Inr False \<longleftrightarrow> door_roi d' = None) \<and>
         (door_roi d' = None \<longrightarrow> calibrate_closed cv A d' = (Inr False, d')) \<and>
         (door_roi d' = Some r' \<and> is_empty (crop r' A) \<longrightarrow>
            calibrate_closed cv A d' = (Inl EmptyImage, d'))"
proof -
  have twice: "calibrate_closed cv B (snd (calibrate_closed cv A d)) = calibrate_closed cv B d"
  proof (cases "is_empty (crop r A)")
    case True
    then show ?thesis by (simp add: calibrate_closed_empty_crop [OF assms(1)])
  next
    case False
    have "door_roi (snd (calibrate_closed cv A d)) = Some r"
      by (simp add: calibrate_closed_keeps_roi assms(1))
    from calibrate_closed_success [OF this assms(2)] calibrate_closed_success [OF assms]
    show ?thesis
      by (simp add: calibrate_closed_success [OF assms(1) False])
  qed
  have "fst (calibrate_closed cv A d') = Inr False \<longleftrightarrow> door_roi d' = None"
    by (auto simp add: calibrate_closed_def split: option.splits sum.splits)
  then show ?thesis
    using twice calibrate_closed_success [OF assms]
    by (auto simp add: calibrate_closed_no_roi calibrate_closed_empty_crop)
qed

theorem calibrate_closed_last_wins_witness:
  "calibrate_closed sample_cv closed_frame
     (snd (calibrate_closed sample_cv open_frame (set_door_frame (0, 0, 4, 2) init_detector))) =
     (Inr True, calibrated_detector) \<and>
   fst (detect_door_status sample_cv open_frame
     (snd (calibrate_closed sample_cv closed_frame
       (snd (calibrate_closed sample_cv open_frame (set_door_frame (0, 0, 4, 2) init_detector)))))) =
     Inr (''OPEN'', Some (open_frame, [[255, 255, 255, 255], [0, 0, 0, 0]],
            [[255, 255, 255, 255], [0, 0, 0, 0]]), 50)"
proof -
  have roi: "door_roi (set_door_frame (0, 0, 4, 2) init_detector) = Some (0, 0, 4, 2)"
    by (simp add: set_door_frame_def)
  have crop: "\<not> is_empty (crop (0, 0, 4, 2) closed_frame)"
    by (simp add: crop_sample_frames) (simp add: closed_frame_def is_empty_def total_pixels_def)
  have alone: "calibrate_closed sample_cv closed_frame (set_door_frame (0, 0, 4, 2) init_detector) =
      (Inr True, calibrated_detector)"
    using calibrate_closed_success [OF roi crop, of sample_cv]
    by (simp add: calibrated_detector_def)
  from calibrate_closed_last_wins [OF roi crop, of sample_cv open_frame]
  have "calibrate_closed sample_cv closed_frame
     (snd (calibrate_closed sample_cv open_frame (set_door_frame (0, 0, 4, 2) init_detector))) =
     calibrate_closed sample_cv closed_frame (set_door_frame (0, 0, 4, 2) init_detector)"
    by blast
  then show ?thesis
    by (simp add: alone) (simp add: detect_sample_frames calibrated_detector_value)
qed

section \<open>Scoring the change\<close>

lemma map2_same: "map2 f xs xs = map (\<lambda>x. f x x) xs"
  by (induction xs) simp_all

lemma absdiff_self: "absdiff img img = Inr (map (map (\<lambda>_. 0)) img)"
  by (simp add: absdiff_def map2_same absdiff_px_def)

lemma threshold_binary_zeros:
  "threshold_binary 30 255 (map (map (\<lambda>_. 0)) img) = map (map (\<lambda>_. 0)) img"
  by (simp add: threshold_binary_def)

lemma no_changed_pixels:
  "filter (\<lambda>v. 0 < v) (concat (map (map (\<lambda>_. 0 :: 8 word)) img)) = []"
  by (induction img) simp_all

lemma fl64_zero: "fl64 0 = 0"
  by (simp add: fl64_def)

text \<open>
  Claim C8.  The scoring step fails with the size mismatch error whenever the stored
  reference and the smoothed grayscale crop differ in their dimensions, and then
  \<open>detect_door_status\<close> fails with that error; this happens, for example, when the region
  is replaced after calibration.
\<close>

theorem change_score_shape_mismatch:
  assumes "dims reference \<noteq> dims current_gray"
  shows "change_score reference current_gray = Inl ShapeMismatch \<and>
         (door_roi d = Some r \<and> reference_closed d = Some reference \<and>
          cvtColor_BGR2GRAY cv (crop r frm) = Inr g \<and> blur cv g = current_gray \<longrightarrow>
            detect_door_status cv frm d = (Inl ShapeMismatch, d))"
proof -
  have "change_score reference current_gray = Inl ShapeMismatch"
    using assms by (simp add: change_score_def absdiff_def)
  then show ?thesis
    by (auto simp add: detect_door_status_def)
qed

theorem change_score_shape_mismatch_witness:
  "detect_door_status sample_cv open_frame (set_door_frame (0, 0, 4, 1) calibrated_detector) =
     (Inl ShapeMismatch, set_door_frame (0, 0, 4, 1) calibrated_detector) \<and>
   change_score [[0, 0, 0, 0], [0, 0, 0, 0]] [[255, 255, 255, 255]] = Inl ShapeMismatch"
proof -
  have g: "cvtColor_BGR2GRAY sample_cv (crop (0, 0, 4, 1) open_frame) = Inr [[255, 255, 255, 255]]"
    by (simp add: cvtColor_BGR2GRAY_def crop_def py_slice_def slice_bound_def open_frame_def
        is_empty_def total_pixels_def sample_cv_def sample_gray_values)
  have "dims [[0, 0, 0, 0], [0, 0, 0, 0 :: 8 word]] \<noteq> dims [[255, 255, 255, 255 :: 8 word]]"
    by (simp add: dims_def)
  from change_score_shape_mismatch
    [OF this, of "set_door_frame (0, 0, 4, 1) calibrated_detector" "(0, 0, 4, 1)" sample_cv
      open_frame "[[255, 255, 255, 255]]"] g
  show ?thesis
    by (simp add: set_door_frame_def calibrated_detector_value blur_sample_cv)
qed

text \<open>
  Claim C9.  Scoring a grayscale image against itself gives a difference image and a mask
  that are zero everywhere and a change percentage of exactly 0.  The image has at least one
  pixel, as every image that reaches the scoring step has: the colour conversion before it
  rejects a crop without pixels.  In particular a frame classified right after a successful
  calibration with that same frame scores 0 and, the threshold not being negative, is
  \<open>CLOSED\<close>.
\<close>

theorem change_score_self:
  "(0 < total_pixels img \<longrightarrow>
      change_score img img = Inr (map (map (\<lambda>_. 0)) img, map (map (\<lambda>_. 0)) img, 0)) \<and>
   (door_roi d = Some r \<and> fst (calibrate_closed cv frm d) = Inr True \<and>
    0 \<le> threshold_percentage d \<longrightarrow>
      (\<exists>zeros. fst (detect_door_status cv frm (snd (calibrate_closed cv frm d))) =
         Inr (''CLOSED'', Some (crop r frm, zeros, zeros), 0) \<and>
         (\<forall>row \<in> set zeros. \<forall>v \<in> set row. v = 0)))"
proof (intro conjI impI)
  show self: "change_score img img = Inr (map (map (\<lambda>_. 0)) img, map (map (\<lambda>_. 0)) img, 0)"
    for img
    by (simp add: change_score_def absdiff_self threshold_binary_zeros no_changed_pixels
        fdiv_def fmul_def fl64_zero Let_def)
  assume a: "door_roi d = Some r \<and> fst (calibrate_closed cv frm d) = Inr True \<and>
    0 \<le> threshold_percentage d"
  define g where "g = map (map (gray_of cv)) (crop r frm)"
  define d' where "d' = snd (calibrate_closed cv frm d)"
  from a have ne: "\<not> is_empty (crop r frm)"
    by (auto simp add: calibrate_closed_def cvtColor_BGR2GRAY_def split: if_splits)
  with a have d': "d' = d\<lparr>reference_closed := Some (blur cv g)\<rparr>"
    by (simp add: d'_def g_def calibrate_closed_success)
  have "detect_door_status cv frm d' =
          (Inr (if threshold_percentage d' < 0 then ''OPEN'' else ''CLOSED'',
                Some (crop r frm, map (map (\<lambda>_. 0)) (blur cv g), map (map (\<lambda>_. 0)) (blur cv g)), 0),
           d')"
  proof (rule detect_door_status_scored)
    show "door_roi d' = Some r" using a by (simp add: d')
    show "reference_closed d' = Some (blur cv g)" by (simp add: d')
    show "cvtColor_BGR2GRAY cv (crop r frm) = Inr g"
      using ne by (simp add: cvtColor_BGR2GRAY_def g_def)
    show "change_score (blur cv g) (blur cv g) =
            Inr (map (map (\<lambda>_. 0)) (blur cv g), map (map (\<lambda>_. 0)) (blur cv g), 0)"
      by (rule self)
  qed
  moreover have "\<not> threshold_percentage d' < 0"
    using a by (simp add: d')
  ultimately have "fst (detect_door_status cv frm (snd (calibrate_closed cv frm d))) =
      Inr (''CLOSED'', Some (crop r frm, map (map (\<lambda>_. 0)) (blur cv g),
             map (map (\<lambda>_. 0)) (blur cv g)), 0)"
    by (simp add: d'_def)
  moreover have "\<forall>row \<in> set (map (map (\<lambda>_. 0 :: 8 word)) (blur cv g)). \<forall>v \<in> set row. v = 0"
    by auto
  ultimately show "\<exists>zeros. fst (detect_door_status cv frm (snd (calibrate_closed cv frm d))) =
         Inr (''CLOSED'', Some (crop r frm, zeros, zeros), 0) \<and>
         (\<forall>row \<in> set zeros. \<forall>v \<in> set row. v = 0)"
    by blast
qed

theorem change_score_self_witness:
  "change_score [[255, 0, 0, 0], [0, 0, 17, 0]] [[255, 0, 0, 0], [0, 0, 17, 0]] =
     Inr ([[0, 0, 0, 0], [0, 0, 0, 0]], [[0, 0, 0, 0], [0, 0, 0, 0]], 0) \<and>
   (\<exists>zeros. fst (detect_door_status sample_cv open_frame
        (snd (calibrate_closed sample_cv open_frame (set_door_frame (0, 0, 4, 2) init_detector)))) =
      Inr (''CLOSED'', Some (open_frame, zeros, zeros), 0))"
proof -
  have "fst (calibrate_closed sample_cv open_frame (set_door_frame (0, 0, 4, 2) init_detector)) =
      Inr True"
    by (simp add: calibrate_closed_def set_door_frame_def cvtColor_sample_frames)
  then have "door_roi (set_door_frame (0, 0, 4, 2) init_detector) = Some (0, 0, 4, 2) \<and>
    fst (calibrate_closed sample_cv open_frame (set_door_frame (0, 0, 4, 2) init_detector)) = Inr True \<and>
    0 \<le> threshold_percentage (set_door_frame (0, 0, 4, 2) init_detector)"
    by (simp add: set_door_frame_def init_detector_def)
  with change_score_self
    [of "[[255, 0, 0, 0], [0, 0, 17, 0]]" "set_door_frame (0, 0, 4, 2) init_detector"
      "(0, 0, 4, 2)" sample_cv open_frame]
  show ?thesis
    by (simp add: total_pixels_def crop_sample_frames) blast
qed

end
